theory Spec2Isabelle
  imports Complex_Main
begin

section \<open>Python values and faults\<close>

text \<open>
  The module \<open>hypergraph_wireless.py\<close> is embedded function by function. Vertex ids,
  level numbers and the vertex count are Python ints (\<open>int\<close>); a tuple or list of vertex
  ids is an \<open>int list\<close>; a dictionary is a map; every exception the code can raise is a
  value of \<open>py_error\<close>, and a call that can raise returns \<open>py_error + 'a\<close>.
  Python floats are idealised as real numbers: overflow, underflow and the rounding error
  of binary arithmetic are outside the model.
\<close>

datatype py_error = ValueError | KeyError | ZeroDivisionError | IndexError

type_synonym point = "real \<times> real"

text \<open>\<open>len(xs)\<close> and \<open>range(a, b)\<close>.\<close>

definition len :: "'a list \<Rightarrow> int" where
  "len xs = int (length xs)"

definition py_range :: "int \<Rightarrow> int \<Rightarrow> int list" where
  "py_range a b = [a..b - 1]"

text \<open>\<open>max(e)\<close> raises ValueError on an empty sequence.\<close>

definition py_max :: "int list \<Rightarrow> py_error + int" where
  "py_max e = (case e of [] \<Rightarrow> Inl ValueError | x # xs \<Rightarrow> Inr (fold max xs x))"

section \<open>The class Hypergraph\<close>

record hypergraph =
  numVertices :: int
  V :: "int list"
  E :: "int \<rightharpoonup> int list list"
  location :: "int \<rightharpoonup> point"

text \<open>\<open>__init__\<close>: \<open>V = [1..N]\<close>, one empty level set for each \<open>k\<close> in \<open>range(0, N+1)\<close>.\<close>

definition Hypergraph :: "int \<Rightarrow> hypergraph" where
  "Hypergraph N =
     \<lparr> numVertices = N,
       V = py_range 1 (N + 1),
       E = fold (\<lambda>k m. m(k \<mapsto> [])) (py_range 0 (N + 1)) Map.empty,
       location = Map.empty \<rparr>"



text \<open>
  \<open>addEdge\<close> returns what it printed together with its outcome: the message is printed
  before the level set is looked up, so a call can print and then raise KeyError.
\<close>

definition endpoint_msg :: string where
  "endpoint_msg = ''Error!  You are trying to add an edge with endpoint > N.''"

definition addEdge :: "hypergraph \<Rightarrow> int list \<Rightarrow> string list \<times> (py_error + hypergraph)" where
  "addEdge H e =
     (let edge_tuple = sort e; k = len edge_tuple in
      case py_max e of
        Inl err \<Rightarrow> ([], Inl err)
      | Inr m \<Rightarrow>
          (let out = (if m > numVertices H then [endpoint_msg] else []) in
           case E H k of
             None \<Rightarrow> (out, Inl KeyError)
           | Some lvl \<Rightarrow>
               (out, Inr (if edge_tuple \<notin> set lvl
                          then H\<lparr>E := (E H)(k \<mapsto> lvl @ [edge_tuple])\<rparr> else H))))"

definition removeEdge :: "hypergraph \<Rightarrow> int list \<Rightarrow> py_error + hypergraph" where
  "removeEdge H e =
     (let edge_tuple = sort e; k = len edge_tuple in
      case E H k of
        None \<Rightarrow> Inl KeyError
      | Some lvl \<Rightarrow>
          Inr (if edge_tuple \<in> set lvl
               then H\<lparr>E := (E H)(k \<mapsto> remove1 edge_tuple lvl)\<rparr> else H))"


text \<open>
  \<open>removeSupersetsOf\<close>: the loop over \<open>i\<close> in \<open>range(k+1, N+1)\<close>; the inner loop that
  collects in \<open>temp\<close> the edges \<open>f\<close> with \<open>set(e).issubset(set(f)) == False\<close> is a filter.
\<close>

fun removeSupersets_levels ::
  "int list \<Rightarrow> int list \<Rightarrow> (int \<rightharpoonup> int list list) \<Rightarrow> py_error + (int \<rightharpoonup> int list list)" where
  "removeSupersets_levels e [] m = Inr m"
| "removeSupersets_levels e (i # is) m =
     (case m i of
        None \<Rightarrow> Inl KeyError
      | Some lvl \<Rightarrow>
          removeSupersets_levels e is
            (if len lvl \<ge> 1 then m(i \<mapsto> filter (\<lambda>f. \<not> set e \<subseteq> set f) lvl) else m))"

definition removeSupersetsOf :: "hypergraph \<Rightarrow> int list \<Rightarrow> py_error + hypergraph" where
  "removeSupersetsOf H e =
     (case removeSupersets_levels e (py_range (len e + 1) (numVertices H + 1)) (E H) of
        Inl err \<Rightarrow> Inl err
      | Inr m \<Rightarrow> Inr (H\<lparr>E := m\<rparr>))"

definition setLevelSet :: "hypergraph \<Rightarrow> int \<Rightarrow> int list list \<Rightarrow> hypergraph" where
  "setLevelSet H k F = H\<lparr>E := (E H)(k \<mapsto> F)\<rparr>"


text \<open>
  \<open>isIndependentSet\<close> reads only \<open>len(J)\<close> and \<open>set(J)\<close> of its argument, which is a list
  in one call of \<open>interferenceDegree\<close> and a Python set in the other.
\<close>

fun independent_scan :: "(int \<rightharpoonup> int list list) \<Rightarrow> int set \<Rightarrow> int list \<Rightarrow> py_error + bool" where
  "independent_scan m J [] = Inr True"
| "independent_scan m J (i # is) =
     (case m i of
        None \<Rightarrow> Inl KeyError
      | Some lvl \<Rightarrow>
          if \<exists>edge \<in> set lvl. set edge \<subseteq> J then Inr False else independent_scan m J is)"

definition isIndependentSet :: "hypergraph \<Rightarrow> int list \<Rightarrow> py_error + bool" where
  "isIndependentSet H J = independent_scan (E H) (set J) (py_range 1 (len J + 1))"


text \<open>The keys \<open>0..N\<close> that \<open>__init__\<close> creates and no method removes.\<close>

definition level_keys :: "hypergraph \<Rightarrow> bool" where
  "level_keys H \<longleftrightarrow> dom (E H) = {0..numVertices H}"


text \<open>
  A sequence of calls on one hypergraph object; an exception ends the sequence.
  \<open>addEdge\<close> and \<open>removeEdge\<close> raise before they change the object.
\<close>

datatype call = AddEdge "int list" | RemoveEdge "int list" | RemoveSupersetsOf "int list"

fun do_call :: "hypergraph \<Rightarrow> call \<Rightarrow> py_error + hypergraph" where
  "do_call H (AddEdge e) = snd (addEdge H e)"
| "do_call H (RemoveEdge e) = removeEdge H e"
| "do_call H (RemoveSupersetsOf e) = removeSupersetsOf H e"

fun run :: "hypergraph \<Rightarrow> call list \<Rightarrow> py_error + hypergraph" where
  "run H [] = Inr H"
| "run H (c # cs) = (case do_call H c of Inl err \<Rightarrow> Inl err | Inr H' \<Rightarrow> run H' cs)"

text \<open>
  Every element of \<open>E[k]\<close> is a sorted tuple of \<open>k\<close> entries and no level set repeats a
  tuple; the entries of every tuple are pairwise distinct vertices of \<open>[1, N]\<close>.
\<close>

definition levels_normal :: "hypergraph \<Rightarrow> bool" where
  "levels_normal H \<longleftrightarrow>
     (\<forall>k lvl. E H k = Some lvl \<longrightarrow> distinct lvl \<and> (\<forall>f \<in> set lvl. sorted f \<and> len f = k))"

definition edges_of_vertices :: "hypergraph \<Rightarrow> bool" where
  "edges_of_vertices H \<longleftrightarrow>
     (\<forall>k lvl. E H k = Some lvl \<longrightarrow>
        (\<forall>f \<in> set lvl. distinct f \<and> set f \<subseteq> {1..numVertices H}))"

section \<open>The feasibility predicate\<close>


text \<open>\<open>round(x, 3)\<close>: to the nearest multiple of \<open>0.001\<close>, a tie to the even one.\<close>

definition round_half_even :: "real \<Rightarrow> int" where
  "round_half_even y =
     (let f = \<lfloor>y\<rfloor>; d = y - of_int f in
      if d < 1 / 2 then f else if d > 1 / 2 then f + 1 else if even f then f else f + 1)"

definition py_round3 :: "real \<Rightarrow> real" where
  "py_round3 x = of_int (round_half_even (x * 1000)) / 1000"







section \<open>The generator\<close>

text \<open>\<open>itertools.combinations(xs, n)\<close>, in the order the iterator yields.\<close>

fun combinations :: "'a list \<Rightarrow> nat \<Rightarrow> 'a list list" where
  "combinations xs 0 = [[]]"
| "combinations [] (Suc n) = []"
| "combinations (x # xs) (Suc n) = map ((#) x) (combinations xs n) @ combinations xs (Suc n)"








section \<open>The interference degree\<close>






text \<open>\<open>itertools.combinations(e, 2)\<close>, as pairs.\<close>

fun pairs :: "'a list \<Rightarrow> ('a \<times> 'a) list" where
  "pairs [] = []"
| "pairs (x # xs) = map (Pair x) xs @ pairs xs"












section \<open>Predicates used to state the generator's invariant\<close>


definition edges_at :: "hypergraph \<Rightarrow> int \<Rightarrow> int list set" where
  "edges_at H k = (case E H k of None \<Rightarrow> {} | Some lvl \<Rightarrow> set lvl)"



definition prune_above ::
  "int \<Rightarrow> int \<Rightarrow> int list list \<Rightarrow> (int \<rightharpoonup> int list list) \<Rightarrow> (int \<rightharpoonup> int list list)" where
  "prune_above k N es m =
     (\<lambda>j. if k < j \<and> j \<le> N
          then map_option (filter (\<lambda>f. \<forall>e \<in> set es. \<not> set e \<subseteq> set f)) (m j) else m j)"




section \<open>The interference degree as the specification states it\<close>










section \<open>Properties of the level-set operations\<close>

lemma set_py_range: "set (py_range a b) = {a..b - 1}"
  by (simp add: py_range_def)

lemma distinct_py_range: "distinct (py_range a b)"
  by (simp add: py_range_def)

lemma E_Hypergraph_fold:
  "fold (\<lambda>k m. m(k \<mapsto> [])) ks m0 = (\<lambda>j. if j \<in> set ks then Some [] else m0 j)"
  by (induction ks arbitrary: m0) (auto simp: fun_eq_iff)

lemma E_Hypergraph: "E (Hypergraph N) = (\<lambda>j. if 0 \<le> j \<and> j \<le> N then Some [] else None)"
  by (auto simp: Hypergraph_def E_Hypergraph_fold set_py_range fun_eq_iff)

lemma numVertices_Hypergraph [simp]: "numVertices (Hypergraph N) = N"
  by (simp add: Hypergraph_def)

lemma level_keys_Hypergraph: "level_keys (Hypergraph N)"
  by (auto simp: level_keys_def E_Hypergraph dom_def)

lemma removeSupersets_levels_eq:
  "distinct ks \<Longrightarrow> set ks \<subseteq> dom m \<Longrightarrow>
   removeSupersets_levels e ks m =
     Inr (\<lambda>j. if j \<in> set ks then map_option (filter (\<lambda>f. \<not> set e \<subseteq> set f)) (m j) else m j)"
proof (induction ks arbitrary: m)
  case Nil
  then show ?case by simp
next
  case (Cons i ks)
  then obtain lvl where lvl: "m i = Some lvl" by auto
  let ?m' = "if len lvl \<ge> 1 then m(i \<mapsto> filter (\<lambda>f. \<not> set e \<subseteq> set f) lvl) else m"
  let ?m = "m(i \<mapsto> filter (\<lambda>f. \<not> set e \<subseteq> set f) lvl)"
  have m': "?m' = ?m"
    using lvl by (cases lvl) (auto simp: len_def fun_eq_iff)
  have "removeSupersets_levels e (i # ks) m = removeSupersets_levels e ks ?m'"
    by (simp only: removeSupersets_levels.simps lvl option.case)
  also have "\<dots> = removeSupersets_levels e ks ?m"
    by (simp only: m')
  also have "\<dots> = Inr (\<lambda>j. if j \<in> set ks
       then map_option (filter (\<lambda>f. \<not> set e \<subseteq> set f)) (?m j) else ?m j)"
    using Cons.prems by (intro Cons.IH) auto
  also have "\<dots> = Inr (\<lambda>j. if j \<in> set (i # ks)
       then map_option (filter (\<lambda>f. \<not> set e \<subseteq> set f)) (m j) else m j)"
    using lvl Cons.prems(1) by (auto simp: fun_eq_iff)
  finally show ?case .
qed

lemma removeSupersetsOf_eq:
  assumes "level_keys H"
  shows "removeSupersetsOf H e =
     Inr (H\<lparr>E := (\<lambda>j. if len e < j \<and> j \<le> numVertices H
                      then map_option (filter (\<lambda>f. \<not> set e \<subseteq> set f)) (E H j) else E H j)\<rparr>)"
proof -
  have "set (py_range (len e + 1) (numVertices H + 1)) \<subseteq> dom (E H)"
    using assms by (auto simp: level_keys_def set_py_range len_def)
  then show ?thesis
    unfolding removeSupersetsOf_def
    by (auto simp: removeSupersets_levels_eq distinct_py_range set_py_range fun_eq_iff
          intro!: arg_cong[where f="\<lambda>m. H\<lparr>E := m\<rparr>"])
qed


lemma level_keys_iff:
  "level_keys H \<longleftrightarrow> (\<forall>k. (E H k \<noteq> None) = (0 \<le> k \<and> k \<le> numVertices H))"
  by (auto simp: level_keys_def dom_def set_eq_iff)

lemma level_keys_setLevelSet:
  "level_keys H \<Longrightarrow> 0 \<le> k \<Longrightarrow> k \<le> numVertices H \<Longrightarrow> level_keys (setLevelSet H k F)"
  by (auto simp: level_keys_iff setLevelSet_def)

lemma setLevelSet_simps [simp]:
  "numVertices (setLevelSet H k F) = numVertices H"
  "V (setLevelSet H k F) = V H"
  "location (setLevelSet H k F) = location H"
  "E (setLevelSet H k F) = (E H)(k \<mapsto> F)"
  by (simp_all add: setLevelSet_def)

text \<open>
  Claim C4. On a hypergraph whose level sets are those of cardinality \<open>0..N\<close>,
  \<open>removeSupersetsOf(e)\<close> returns normally; every level set \<open>E[i]\<close> with \<open>i > |e|\<close> then
  holds exactly its previous edges that are not supersets of \<open>e\<close>, in their previous
  order; every level set with \<open>i \<le> |e|\<close>, the set of keys, \<open>numVertices\<close>, \<open>V\<close> and the
  locations are unchanged.
\<close>

theorem removeSupersetsOf_post_frame:
  assumes "level_keys H"
  shows "\<exists>H'. removeSupersetsOf H e = Inr H' \<and>
     (\<forall>i lvl. len e < i \<and> E H i = Some lvl \<longrightarrow>
        E H' i = Some (filter (\<lambda>f. \<not> set e \<subseteq> set f) lvl)) \<and>
     (\<forall>i. i \<le> len e \<longrightarrow> E H' i = E H i) \<and>
     dom (E H') = dom (E H) \<and>
     numVertices H' = numVertices H \<and> V H' = V H \<and> location H' = location H"
proof -
  let ?H' = "H\<lparr>E := (\<lambda>j. if len e < j \<and> j \<le> numVertices H
                      then map_option (filter (\<lambda>f. \<not> set e \<subseteq> set f)) (E H j) else E H j)\<rparr>"
  have keys: "\<And>i lvl. E H i = Some lvl \<Longrightarrow> i \<le> numVertices H"
    using assms by (auto simp: level_keys_def dom_def)
  have "removeSupersetsOf H e = Inr ?H'"
    by (rule removeSupersetsOf_eq [OF assms])
  moreover have "\<forall>i lvl. len e < i \<and> E H i = Some lvl \<longrightarrow>
        E ?H' i = Some (filter (\<lambda>f. \<not> set e \<subseteq> set f) lvl)"
    using keys by auto
  moreover have "\<forall>i. i \<le> len e \<longrightarrow> E ?H' i = E H i"
    by simp
  moreover have "dom (E ?H') = dom (E H)"
    by (auto simp: dom_def split: if_splits)
  ultimately show ?thesis by simp
qed

theorem removeSupersetsOf_post_frame_witness:
  "level_keys (setLevelSet (setLevelSet (Hypergraph 4) 2 [[1, 2]]) 3 [[1, 2, 3], [2, 3, 4], [1, 2, 4]]) \<and>
   (\<exists>H'. removeSupersetsOf
            (setLevelSet (setLevelSet (Hypergraph 4) 2 [[1, 2]]) 3 [[1, 2, 3], [2, 3, 4], [1, 2, 4]])
            [1, 2] = Inr H' \<and>
          E H' 3 = Some [[2, 3, 4]] \<and> E H' 2 = Some [[1, 2]])"
proof -
  let ?H = "setLevelSet (setLevelSet (Hypergraph 4) 2 [[1, 2]]) 3 [[1, 2, 3], [2, 3, 4], [1, 2, 4]]"
  have k: "level_keys ?H"
    by (simp add: level_keys_setLevelSet level_keys_Hypergraph)
  from removeSupersetsOf_post_frame [OF k, of "[1, 2]"]
  obtain H' where H': "removeSupersetsOf ?H [1, 2] = Inr H'"
    and up: "\<forall>i lvl. len [1, 2 :: int] < i \<and> E ?H i = Some lvl \<longrightarrow>
        E H' i = Some (filter (\<lambda>f. \<not> set [1, 2] \<subseteq> set f) lvl)"
    and lo: "\<forall>i. i \<le> len [1, 2 :: int] \<longrightarrow> E H' i = E ?H i"
    by blast
  have "E H' 3 = Some [[2, 3, 4]]"
    using up [rule_format, of 3 "[[1, 2, 3], [2, 3, 4], [1, 2, 4]]"] by (simp add: len_def)
  moreover have "E H' 2 = Some [[1, 2]]"
    using lo [rule_format, of 2] by (simp add: len_def)
  ultimately show ?thesis using k H' by blast
qed

lemma level_keys_removeSupersetsOf:
  "level_keys H \<Longrightarrow> removeSupersetsOf H e = Inr H' \<Longrightarrow> level_keys H'"
proof -
  assume k: "level_keys H" and r: "removeSupersetsOf H e = Inr H'"
  have "dom (E H') = dom (E H)"
    using r by (auto simp: removeSupersetsOf_eq [OF k] dom_def split: if_splits)
  moreover have "numVertices H' = numVertices H"
    using r by (auto simp: removeSupersetsOf_eq [OF k])
  ultimately show ?thesis using k by (simp add: level_keys_def)
qed

text \<open>
  Claim C8. Pruning is idempotent: \<open>removeSupersetsOf(e)\<close> returns a hypergraph on
  which a second \<open>removeSupersetsOf(e)\<close> returns that same hypergraph.
\<close>

theorem removeSupersetsOf_idempotent:
  assumes "level_keys H"
  shows "\<exists>H'. removeSupersetsOf H e = Inr H' \<and> removeSupersetsOf H' e = Inr H'"
proof -
  let ?P = "\<lambda>f. \<not> set e \<subseteq> set f"
  let ?H' = "H\<lparr>E := (\<lambda>j. if len e < j \<and> j \<le> numVertices H
                      then map_option (filter ?P) (E H j) else E H j)\<rparr>"
  have 1: "removeSupersetsOf H e = Inr ?H'"
    by (rule removeSupersetsOf_eq [OF assms])
  then have "level_keys ?H'"
    using assms level_keys_removeSupersetsOf by blast
  then have "removeSupersetsOf ?H' e =
     Inr (?H'\<lparr>E := (\<lambda>j. if len e < j \<and> j \<le> numVertices ?H'
                      then map_option (filter ?P) (E ?H' j) else E ?H' j)\<rparr>)"
    by (rule removeSupersetsOf_eq)
  also have "\<dots> = Inr ?H'"
    by (auto simp: fun_eq_iff option.map_comp comp_def intro!: arg_cong[where f="\<lambda>m. H\<lparr>E := m\<rparr>"] option.map_cong)
  finally show ?thesis using 1 by blast
qed

theorem removeSupersetsOf_idempotent_witness:
  "level_keys (setLevelSet (Hypergraph 3) 3 [[1, 2, 3]]) \<and>
   removeSupersetsOf (setLevelSet (Hypergraph 3) 3 [[1, 2, 3]]) [1, 3] = Inr (setLevelSet (Hypergraph 3) 3 []) \<and>
   removeSupersetsOf (setLevelSet (Hypergraph 3) 3 []) [1, 3] = Inr (setLevelSet (Hypergraph 3) 3 [])"
proof -
  let ?H = "setLevelSet (Hypergraph 3) 3 [[1, 2, 3]]"
  have k: "level_keys ?H"
    by (simp add: level_keys_setLevelSet level_keys_Hypergraph)
  have r: "removeSupersetsOf ?H [1, 3] = Inr (setLevelSet (Hypergraph 3) 3 [])"
    by (simp add: removeSupersetsOf_def py_range_def len_def setLevelSet_def E_Hypergraph Hypergraph_def)
  from removeSupersetsOf_idempotent [OF k, of "[1, 3]"] r k show ?thesis
    by auto
qed

lemma independent_scan_eq:
  "set ks \<subseteq> dom m \<Longrightarrow>
   independent_scan m J ks = Inr (\<forall>i \<in> set ks. \<forall>lvl. m i = Some lvl \<longrightarrow> (\<forall>edge \<in> set lvl. \<not> set edge \<subseteq> J))"
  by (induction ks) (auto simp: dom_def)

text \<open>
  Claim C5, as stated for every vertex list, fails: on the empty hypergraph with one vertex
  the list \<open>[1, 1]\<close> contains no edge, yet the scan reaches the level set \<open>E[2]\<close>, which
  does not exist, and the call raises KeyError instead of returning true.
\<close>

theorem isIndependentSet_keyerror:
  "isIndependentSet (Hypergraph 1) [1, 1] = Inl KeyError"
  by (simp add: isIndependentSet_def py_range_def len_def E_Hypergraph upto_rec1)

text \<open>
  Claim C5, amended. For every vertex list \<open>J\<close> of at most \<open>N\<close> entries,
  \<open>isIndependentSet(J)\<close> returns, and returns true iff no edge in the level sets of
  cardinality \<open>1\<close> up to \<open>|J|\<close> is a subset of \<open>J\<close>.
\<close>

theorem isIndependentSet_correct:
  assumes "level_keys H" and "len J \<le> numVertices H"
  shows "isIndependentSet H J =
     Inr (\<forall>i \<in> {1..len J}. \<forall>lvl. E H i = Some lvl \<longrightarrow> (\<forall>edge \<in> set lvl. \<not> set edge \<subseteq> set J))"
proof -
  have "set (py_range 1 (len J + 1)) \<subseteq> dom (E H)"
    using assms by (auto simp: level_keys_def set_py_range)
  then show ?thesis
    unfolding isIndependentSet_def by (simp add: independent_scan_eq set_py_range)
qed

theorem isIndependentSet_correct_witness:
  "level_keys (setLevelSet (Hypergraph 3) 2 [[1, 2]]) \<and>
   len [1, 2, 3 :: int] \<le> numVertices (setLevelSet (Hypergraph 3) 2 [[1, 2]]) \<and>
   isIndependentSet (setLevelSet (Hypergraph 3) 2 [[1, 2]]) [1, 2, 3] = Inr False \<and>
   isIndependentSet (setLevelSet (Hypergraph 3) 2 [[1, 2]]) [1, 3] = Inr True"
proof -
  let ?H = "setLevelSet (Hypergraph 3) 2 [[1, 2]]"
  have k: "level_keys ?H"
    by (simp add: level_keys_setLevelSet level_keys_Hypergraph)
  have l3: "len [1, 2, 3 :: int] \<le> numVertices ?H" and l2: "len [1, 3 :: int] \<le> numVertices ?H"
    by (simp_all add: len_def)
  have e2: "E ?H 2 = Some [[1, 2]]" by simp
  have "isIndependentSet ?H [1, 2, 3] = Inr False"
    unfolding isIndependentSet_correct [OF k l3] using e2 by (auto simp: len_def)
  moreover have "isIndependentSet ?H [1, 3] = Inr True"
    unfolding isIndependentSet_correct [OF k l2] by (auto simp: len_def E_Hypergraph)
  ultimately show ?thesis using k l3 by blast
qed


lemma py_max_eq:
  assumes "e \<noteq> []"
  shows "py_max e = Inr (Max (set e))"
proof (cases e)
  case Nil
  then show ?thesis using assms by simp
next
  case (Cons a list)
  have "fold max list a = Max (set (a # list))"
    by (rule Max.set_eq_fold [symmetric])
  then show ?thesis using Cons by (simp add: py_max_def)
qed

lemma len_sort [simp]: "len (sort e) = len e"
  by (simp add: len_def)

lemma level_keys_lookup:
  "level_keys H \<Longrightarrow> 0 \<le> k \<Longrightarrow> k \<le> numVertices H \<Longrightarrow> \<exists>lvl. E H k = Some lvl"
  by (auto simp: level_keys_iff)

lemma level_keys_None:
  "level_keys H \<Longrightarrow> numVertices H < k \<Longrightarrow> E H k = None"
proof -
  assume "level_keys H" and "numVertices H < k"
  then have "k \<notin> dom (E H)" by (simp add: level_keys_def)
  then show ?thesis by (simp add: dom_def)
qed

lemma addEdge_eq:
  assumes "e \<noteq> []" and "E H (len e) = Some lvl"
  shows "addEdge H e =
     (if Max (set e) > numVertices H then [endpoint_msg] else [],
      Inr (if sort e \<notin> set lvl then H\<lparr>E := (E H)(len e \<mapsto> lvl @ [sort e])\<rparr> else H))"
  using assms by (simp add: addEdge_def py_max_eq Let_def)

text \<open>
  Claim C10. On a hypergraph with level sets \<open>0..N\<close>, \<open>addEdge\<close> raises ValueError on the
  empty list, raises KeyError on a nonempty list of more than \<open>N\<close> entries, and returns
  without fault on every nonempty list of at most \<open>N\<close> entries.
\<close>

theorem addEdge_faults:
  assumes "level_keys H"
  shows "addEdge H [] = ([], Inl ValueError) \<and>
     (e \<noteq> [] \<and> len e > numVertices H \<longrightarrow> snd (addEdge H e) = Inl KeyError) \<and>
     (e \<noteq> [] \<and> len e \<le> numVertices H \<longrightarrow> (\<exists>H'. snd (addEdge H e) = Inr H'))"
proof (intro conjI impI)
  show "addEdge H [] = ([], Inl ValueError)"
    by (simp add: addEdge_def py_max_def)
next
  assume "e \<noteq> [] \<and> len e > numVertices H"
  then show "snd (addEdge H e) = Inl KeyError"
    using level_keys_None [OF assms, of "len e"]
    by (simp add: addEdge_def py_max_eq Let_def)
next
  assume a: "e \<noteq> [] \<and> len e \<le> numVertices H"
  have "0 \<le> len e" by (simp add: len_def)
  with a level_keys_lookup [OF assms, of "len e"]
  obtain lvl where "E H (len e) = Some lvl" by blast
  with a show "\<exists>H'. snd (addEdge H e) = Inr H'"
    by (simp add: addEdge_eq)
qed

theorem addEdge_faults_witness:
  "level_keys (Hypergraph 1) \<and>
   addEdge (Hypergraph 1) [] = ([], Inl ValueError) \<and>
   snd (addEdge (Hypergraph 1) [1, 1]) = Inl KeyError \<and>
   (\<exists>H'. snd (addEdge (Hypergraph 1) [1]) = Inr H')"
  using addEdge_faults [OF level_keys_Hypergraph, of 1 "[1, 1]"]
        addEdge_faults [OF level_keys_Hypergraph, of 1 "[1]"]
  by (simp add: level_keys_Hypergraph len_def)





lemma addEdge_step:
  assumes "snd (addEdge H e) = Inr H'"
  shows "\<exists>lvl. E H (len e) = Some lvl \<and>
     H' = (if sort e \<notin> set lvl then H\<lparr>E := (E H)(len e \<mapsto> lvl @ [sort e])\<rparr> else H)"
  using assms
  by (auto simp: addEdge_def Let_def split: sum.splits option.splits if_splits)

lemma removeEdge_step:
  assumes "removeEdge H e = Inr H'"
  shows "\<exists>lvl. E H (len e) = Some lvl \<and>
     H' = (if sort e \<in> set lvl then H\<lparr>E := (E H)(len e \<mapsto> remove1 (sort e) lvl)\<rparr> else H)"
  using assms
  by (auto simp: removeEdge_def Let_def split: option.splits if_splits)

lemma level_keys_update:
  "level_keys H \<Longrightarrow> E H k = Some lvl \<Longrightarrow> level_keys (H\<lparr>E := (E H)(k \<mapsto> lvl')\<rparr>)"
  by (auto simp: level_keys_def)

lemma levels_normal_update:
  assumes "levels_normal H" and "distinct lvl'" and "\<forall>f \<in> set lvl'. sorted f \<and> len f = k"
  shows "levels_normal (H\<lparr>E := (E H)(k \<mapsto> lvl')\<rparr>)"
  using assms by (auto simp: levels_normal_def)

lemma edges_of_vertices_update:
  assumes "edges_of_vertices H" and "\<forall>f \<in> set lvl'. distinct f \<and> set f \<subseteq> {1..numVertices H}"
  shows "edges_of_vertices (H\<lparr>E := (E H)(k \<mapsto> lvl')\<rparr>)"
  using assms by (auto simp: edges_of_vertices_def)

lemma do_call_keys:
  assumes "do_call H c = Inr H'" and "level_keys H"
  shows "level_keys H' \<and> numVertices H' = numVertices H"
proof (cases c)
  case (AddEdge e)
  with assms addEdge_step [of H e H'] show ?thesis
    by (auto simp: level_keys_update)
next
  case (RemoveEdge e)
  with assms removeEdge_step [of H e H'] show ?thesis
    by (auto simp: level_keys_update)
next
  case (RemoveSupersetsOf e)
  with assms show ?thesis
    using level_keys_removeSupersetsOf [of H e H'] removeSupersetsOf_eq [of H e] by auto
qed

lemma do_call_normal:
  assumes "do_call H c = Inr H'" and "level_keys H" and "levels_normal H"
  shows "levels_normal H'"
proof (cases c)
  case (AddEdge e)
  with assms addEdge_step [of H e H'] obtain lvl where lvl: "E H (len e) = Some lvl"
    and H': "H' = (if sort e \<notin> set lvl then H\<lparr>E := (E H)(len e \<mapsto> lvl @ [sort e])\<rparr> else H)"
    by auto
  have "distinct lvl" "\<forall>f \<in> set lvl. sorted f \<and> len f = len e"
    using assms(3) lvl by (auto simp: levels_normal_def)
  then show ?thesis
    using assms(3) H' by (auto intro!: levels_normal_update)
next
  case (RemoveEdge e)
  with assms removeEdge_step [of H e H'] obtain lvl where lvl: "E H (len e) = Some lvl"
    and H': "H' = (if sort e \<in> set lvl then H\<lparr>E := (E H)(len e \<mapsto> remove1 (sort e) lvl)\<rparr> else H)"
    by auto
  have "distinct lvl" "\<forall>f \<in> set lvl. sorted f \<and> len f = len e"
    using assms(3) lvl by (auto simp: levels_normal_def)
  then have "distinct (remove1 (sort e) lvl)"
      "\<forall>f \<in> set (remove1 (sort e) lvl). sorted f \<and> len f = len e"
    by (auto dest: notin_set_remove1)
  then show ?thesis
    using assms(3) H' by (auto intro!: levels_normal_update)
next
  case (RemoveSupersetsOf e)
  with assms have "H' = H\<lparr>E := (\<lambda>j. if len e < j \<and> j \<le> numVertices H
        then map_option (filter (\<lambda>f. \<not> set e \<subseteq> set f)) (E H j) else E H j)\<rparr>"
    by (simp add: removeSupersetsOf_eq)
  then show ?thesis
    using assms(3) by (auto simp: levels_normal_def split: if_splits)
qed

lemma do_call_vertices:
  assumes "do_call H c = Inr H'" and "level_keys H" and "edges_of_vertices H"
    and "\<forall>e. c = AddEdge e \<longrightarrow> distinct e \<and> set e \<subseteq> {1..numVertices H}"
  shows "edges_of_vertices H'"
proof (cases c)
  case (AddEdge e)
  with assms addEdge_step [of H e H'] obtain lvl where lvl: "E H (len e) = Some lvl"
    and H': "H' = (if sort e \<notin> set lvl then H\<lparr>E := (E H)(len e \<mapsto> lvl @ [sort e])\<rparr> else H)"
    by auto
  have "\<forall>f \<in> set lvl. distinct f \<and> set f \<subseteq> {1..numVertices H}"
    using assms(3) lvl unfolding edges_of_vertices_def by blast
  moreover have "distinct (sort e) \<and> set (sort e) \<subseteq> {1..numVertices H}"
    using assms(4) AddEdge by simp
  ultimately have "\<forall>f \<in> set (lvl @ [sort e]). distinct f \<and> set f \<subseteq> {1..numVertices H}"
    by simp
  from edges_of_vertices_update [OF assms(3) this] show ?thesis
    using assms(3) H' by (cases "sort e \<in> set lvl") simp_all
next
  case (RemoveEdge e)
  with assms removeEdge_step [of H e H'] obtain lvl where lvl: "E H (len e) = Some lvl"
    and H': "H' = (if sort e \<in> set lvl then H\<lparr>E := (E H)(len e \<mapsto> remove1 (sort e) lvl)\<rparr> else H)"
    by auto
  have "\<forall>f \<in> set lvl. distinct f \<and> set f \<subseteq> {1..numVertices H}"
    using assms(3) lvl unfolding edges_of_vertices_def by blast
  then have "\<forall>f \<in> set (remove1 (sort e) lvl). distinct f \<and> set f \<subseteq> {1..numVertices H}"
    using set_remove1_subset [of "sort e" lvl] by blast
  from edges_of_vertices_update [OF assms(3) this] show ?thesis
    using assms(3) H' by (cases "sort e \<in> set lvl") simp_all
next
  case (RemoveSupersetsOf e)
  with assms have "H' = H\<lparr>E := (\<lambda>j. if len e < j \<and> j \<le> numVertices H
        then map_option (filter (\<lambda>f. \<not> set e \<subseteq> set f)) (E H j) else E H j)\<rparr>"
    by (simp add: removeSupersetsOf_eq)
  then have n: "numVertices H' = numVertices H"
    and sub: "\<And>k lvl'. E H' k = Some lvl' \<Longrightarrow> \<exists>lvl. E H k = Some lvl \<and> set lvl' \<subseteq> set lvl"
    by (auto split: if_splits)
  show ?thesis
    unfolding edges_of_vertices_def n
  proof (intro allI impI ballI)
    fix k lvl' f
    assume "E H' k = Some lvl'" and f: "f \<in> set lvl'"
    from sub [OF this(1)] obtain lvl where "E H k = Some lvl" and "set lvl' \<subseteq> set lvl"
      by blast
    with f assms(3) show "distinct f \<and> set f \<subseteq> {1..numVertices H}"
      unfolding edges_of_vertices_def by blast
  qed
qed

lemma run_invariant:
  assumes "run H0 cs = Inr H" and "level_keys H0" and "levels_normal H0"
  shows "level_keys H \<and> numVertices H = numVertices H0 \<and> levels_normal H"
  using assms
proof (induction cs arbitrary: H0)
  case Nil
  then show ?case by simp
next
  case (Cons c cs)
  then obtain H1 where H1: "do_call H0 c = Inr H1" and r: "run H1 cs = Inr H"
    by (auto split: sum.splits)
  from do_call_keys [OF H1 Cons.prems(2)] do_call_normal [OF H1 Cons.prems(2,3)]
  have "level_keys H1" "numVertices H1 = numVertices H0" "levels_normal H1" by auto
  with Cons.IH [OF r] show ?case by simp
qed

lemma run_vertices:
  assumes "run H0 cs = Inr H" and "level_keys H0" and "edges_of_vertices H0"
    and "\<forall>e. AddEdge e \<in> set cs \<longrightarrow> distinct e \<and> set e \<subseteq> {1..numVertices H0}"
  shows "edges_of_vertices H"
  using assms
proof (induction cs arbitrary: H0)
  case Nil
  then show ?case by simp
next
  case (Cons c cs)
  then obtain H1 where H1: "do_call H0 c = Inr H1" and r: "run H1 cs = Inr H"
    by (auto split: sum.splits)
  from do_call_keys [OF H1 Cons.prems(2)]
  have k: "level_keys H1" and n: "numVertices H1 = numVertices H0" by auto
  have "edges_of_vertices H1"
    using do_call_vertices [OF H1 Cons.prems(2,3)] Cons.prems(4) by auto
  moreover have "\<forall>e. AddEdge e \<in> set cs \<longrightarrow> distinct e \<and> set e \<subseteq> {1..numVertices H1}"
    using Cons.prems(4) n by auto
  ultimately show ?case using Cons.IH [OF r k] by blast
qed

lemma levels_normal_Hypergraph: "levels_normal (Hypergraph N)"
  by (auto simp: levels_normal_def E_Hypergraph split: if_splits)

lemma edges_of_vertices_Hypergraph: "edges_of_vertices (Hypergraph N)"
  by (auto simp: edges_of_vertices_def E_Hypergraph split: if_splits)

text \<open>
  Claim C9, as stated for arbitrary vertex lists, fails: \<open>addEdge([1, 1])\<close> on
  \<open>Hypergraph(2)\<close> stores the tuple \<open>(1, 1)\<close> in \<open>E[2]\<close>, whose two entries are not
  distinct.
\<close>

theorem addEdge_repeated_vertex:
  "run (Hypergraph 2) [AddEdge [1, 1]] = Inr (setLevelSet (Hypergraph 2) 2 [[1, 1]])"
  by (simp add: addEdge_def py_max_def len_def E_Hypergraph setLevelSet_def)

text \<open>
  Claim C9, amended. After any sequence of \<open>addEdge\<close>, \<open>removeEdge\<close> and
  \<open>removeSupersetsOf\<close> calls on \<open>Hypergraph(N)\<close>, every element of \<open>E[k]\<close> is a sorted
  tuple of exactly \<open>k\<close> entries and no level set contains a tuple twice; if every list
  passed to \<open>addEdge\<close> has pairwise distinct entries in \<open>[1, N]\<close>, the entries of every
  stored tuple are pairwise distinct vertices of \<open>[1, N]\<close>.
\<close>

theorem level_sets_wellformed:
  assumes "run (Hypergraph N) cs = Inr H"
  shows "levels_normal H \<and>
     ((\<forall>e. AddEdge e \<in> set cs \<longrightarrow> distinct e \<and> set e \<subseteq> {1..N}) \<longrightarrow> edges_of_vertices H)"
  using run_invariant [OF assms level_keys_Hypergraph levels_normal_Hypergraph]
        run_vertices [OF assms level_keys_Hypergraph edges_of_vertices_Hypergraph]
  by simp

theorem level_sets_wellformed_witness:
  "run (Hypergraph 3) [AddEdge [2, 1], AddEdge [1, 2], AddEdge [3, 2, 1], RemoveEdge [3, 1],
        RemoveSupersetsOf [1, 2]]
     = Inr (setLevelSet (setLevelSet (Hypergraph 3) 2 [[1, 2]]) 3 []) \<and>
   distinct [2, 1 :: int] \<and> set [2, 1] \<subseteq> {1..3 :: int} \<and>
   distinct [1, 2 :: int] \<and> set [1, 2] \<subseteq> {1..3 :: int} \<and>
   distinct [3, 2, 1 :: int] \<and> set [3, 2, 1] \<subseteq> {1..3 :: int} \<and>
   levels_normal (setLevelSet (setLevelSet (Hypergraph 3) 2 [[1, 2]]) 3 []) \<and>
   edges_of_vertices (setLevelSet (setLevelSet (Hypergraph 3) 2 [[1, 2]]) 3 [])"
proof -
  let ?cs = "[AddEdge [2, 1], AddEdge [1, 2], AddEdge [3, 2, 1], RemoveEdge [3, 1],
        RemoveSupersetsOf [1, 2]]"
  let ?H = "setLevelSet (setLevelSet (Hypergraph 3) 2 [[1, 2]]) 3 []"
  have r: "run (Hypergraph 3) ?cs = Inr ?H"
    by (simp add: addEdge_def removeEdge_def removeSupersetsOf_def py_range_def py_max_def
        len_def E_Hypergraph setLevelSet_def)
  have a: "\<forall>e. AddEdge e \<in> set ?cs \<longrightarrow> distinct e \<and> set e \<subseteq> {1..3}"
    by auto
  from level_sets_wellformed [OF r] a have "levels_normal ?H \<and> edges_of_vertices ?H"
    by blast
  then show ?thesis using r by simp
qed

section \<open>Properties of the feasibility predicate\<close>









lemma py_round3_zero [simp]: "py_round3 0 = 0"
  by (simp add: py_round3_def round_half_even_def)




section \<open>Properties of the generator\<close>





















lemma prune_above_Nil [simp]: "prune_above k N [] m = m"
proof (rule ext)
  fix j
  have "map_option (filter (\<lambda>f :: int list. True)) (m j) = m j"
    by (cases "m j") simp_all
  then show "prune_above k N [] m j = m j"
    by (simp add: prune_above_def)
qed








lemma edges_at_cong: "E H' = E H \<Longrightarrow> edges_at H' j = edges_at H j"
  by (simp add: edges_at_def)





lemma edges_at_Hypergraph [simp]: "edges_at (Hypergraph N) j = {}"
  by (simp add: edges_at_def E_Hypergraph)












section \<open>Properties of the interference degree\<close>





lemma pairs_combinations: "map (\<lambda>(i, j). [i, j]) (pairs e) = combinations e 2"
proof -
  have one: "\<And>xs :: 'a list. combinations xs (Suc 0) = map (\<lambda>y. [y]) xs"
    by (induct_tac xs) simp_all
  have "map (\<lambda>(i, j). [i, j]) (pairs e) = combinations e (Suc (Suc 0))"
    by (induction e) (simp_all add: one comp_def)
  then show ?thesis by (simp add: numeral_2_eq_2)
qed
































end
